theory Spec2Isabelle
  imports Main "HOL-Library.Sublist"
begin

section \<open>Go values: errors, panics, slices\<close>

text \<open>
  The builder of \<^verbatim>\<open>src/gui/builder.go\<close> returns Go pairs \<^verbatim>\<open>(value, error)\<close>. An error
  value is made by \<^verbatim>\<open>fmt.Errorf\<close> and is nothing but its message, so \<open>error\<close> is a string
  and a returned error is an \<open>error option\<close> (\<open>None\<close> is Go's \<^verbatim>\<open>nil\<close>). A run-time panic
  (an index out of range, a nil pointer dereference) is not a return value: a function
  that can panic returns \<open>'a go\<close>.

  A \<^verbatim>\<open>[]float32\<close> is a list, and the nil slice is the empty list: every slice of this
  program is either nil or grown from nil by \<^verbatim>\<open>append\<close>, so it is nil exactly when it is
  empty. The type \<open>'f\<close> stands for \<^verbatim>\<open>float32\<close>; the program never computes with such a
  value, it only stores what the number parser returns and the constant 1.
\<close>

type_synonym error = string

datatype panic = NilDereference | IndexOutOfRange nat nat

datatype 'a go = Returns 'a | Panics panic

definition andThen :: "'a go \<Rightarrow> ('a \<Rightarrow> 'b go) \<Rightarrow> 'b go" where
  "andThen m k = (case m of Panics p \<Rightarrow> Panics p | Returns x \<Rightarrow> k x)"

text \<open>The index expression \<^verbatim>\<open>va[i]\<close>: Go panics when \<open>i\<close> is not below the length.\<close>

definition index :: "'a list \<Rightarrow> nat \<Rightarrow> 'a go" where
  "index va i = (if i < length va then Returns (va ! i) else Panics (IndexOutOfRange i (length va)))"

section \<open>The description model (lines 20 to 79)\<close>

datatype panelStyle = PanelStyle
  (style_Borders: string) (style_Paddings: string) (style_BorderColor: string)
  (style_BgColor: string) (style_FgColor: string)

datatype panelStyles = PanelStyles
  (Normal: panelStyle) (Over: panelStyle) (Focus: panelStyle)
  (Pressed: panelStyle) (Disabled: panelStyle)

datatype layoutAttr = LayoutAttr (layout_Type: string)

text \<open>
  A pointer is an \<open>option\<close>: the children are \<^verbatim>\<open>[]*panelDesc\<close> and the decoded mapping is
  \<^verbatim>\<open>map[string]*panelDesc\<close>, and a YAML null leaves such a pointer nil.
\<close>

datatype 'f panelDesc = PanelDesc
  (Type: string) (Name: string) (Posx: 'f) (Posy: 'f) (Width: 'f) (Height: 'f)
  (Margins: string) (Borders: string) (BorderColor: string) (Paddings: string)
  (Color: string) (Enabled: bool) (Visible: bool) (Renderable: bool)
  (Children: "'f panelDesc option list") (Layout: layoutAttr)
  (Styles: "panelStyles option") (Text: string) (FontSize: "'f option")
  (FontDPI: "'f option") (PlaceHolder: string) (MaxLength: "nat option")

definition descTypePanel :: string where "descTypePanel = ''Panel''"
definition descTypeLabel :: string where "descTypeLabel = ''Label''"
definition descTypeEdit :: string where "descTypeEdit = ''Edit''"
definition fieldMargins :: string where "fieldMargins = ''margins''"
definition fieldBorders :: string where "fieldBorders = ''borders''"
definition fieldBorderColor :: string where "fieldBorderColor = ''bordercolor''"
definition fieldPaddings :: string where "fieldPaddings = ''paddings''"
definition fieldColor :: string where "fieldColor = ''color''"

section \<open>The constructed objects\<close>

text \<open>
  Modelled from the spec: the types \<^verbatim>\<open>BorderSizes\<close> and \<^verbatim>\<open>math32.Color4\<close> are declared
  outside the source file. The spec gives a size set as four magnitudes in the fixed
  order top, right, bottom, left, and a colour as three components and an alpha; the
  composite literals of the builder fill them by position.
\<close>

datatype 'f BorderSizes = BorderSizes (Top: 'f) (Right: 'f) (Bottom: 'f) (Left: 'f)

datatype 'f Color4 = Color4 'f 'f 'f 'f

text \<open>
  Modelled from the spec: the widgets \<^verbatim>\<open>Panel\<close> and \<^verbatim>\<open>Label\<close>, their constructors and
  their setters are outside the source file. The spec asks of them only that an object
  can be positioned, can have its margins, borders, paddings and colours set, and can
  have a child attached. A panel therefore records the value each setter was last called
  with (\<open>None\<close>: never called, the built-in default stands) and the children attached to
  it, in order. \<open>IPanel\<close> is the interface value the builder returns; \<open>NilIPanel\<close> is its
  nil.

  Every constructor makes a new object, and two objects with the same contents are still
  two objects. An object therefore carries its address: the number of objects that were
  constructed before it. The builder takes the number of objects constructed so far and
  returns it updated; a build by name starts counting at 0.
\<close>

datatype 'f Label = Label (labelAddr: nat) (labelText: string) (labelPosition: "('f \<times> 'f) option")

datatype 'f Panel = Panel
  (panelAddr: nat) (panelWidth: 'f) (panelHeight: 'f) (panelPosition: "('f \<times> 'f) option")
  (panelMargins: "'f BorderSizes option") (panelBorders: "'f BorderSizes option")
  (panelBordersColor: "'f Color4 option") (panelPaddings: "'f BorderSizes option")
  (panelColor: "'f Color4 option") (panelChildren: "'f IPanel list")
and 'f IPanel = NilIPanel | PanelOf "'f Panel" | LabelOf "'f Label"

fun addrOf :: "'f IPanel \<Rightarrow> nat option" where
  "addrOf NilIPanel = None"
| "addrOf (PanelOf p) = Some (panelAddr p)"
| "addrOf (LabelOf l) = Some (labelAddr l)"

definition NewPanel :: "nat \<Rightarrow> 'f \<Rightarrow> 'f \<Rightarrow> 'f Panel" where
  "NewPanel a w h = Panel a w h None None None None None None []"

fun SetPosition :: "'f Panel \<Rightarrow> 'f \<Rightarrow> 'f \<Rightarrow> 'f Panel" where
  "SetPosition (Panel a w h pos ma bo bc pa co ch) x y = Panel a w h (Some (x, y)) ma bo bc pa co ch"

fun SetMarginsFrom :: "'f Panel \<Rightarrow> 'f BorderSizes \<Rightarrow> 'f Panel" where
  "SetMarginsFrom (Panel a w h pos ma bo bc pa co ch) bs = Panel a w h pos (Some bs) bo bc pa co ch"

fun SetBordersFrom :: "'f Panel \<Rightarrow> 'f BorderSizes \<Rightarrow> 'f Panel" where
  "SetBordersFrom (Panel a w h pos ma bo bc pa co ch) bs = Panel a w h pos ma (Some bs) bc pa co ch"

fun SetBordersColor4 :: "'f Panel \<Rightarrow> 'f Color4 \<Rightarrow> 'f Panel" where
  "SetBordersColor4 (Panel a w h pos ma bo bc pa co ch) c = Panel a w h pos ma bo (Some c) pa co ch"

fun SetPaddingsFrom :: "'f Panel \<Rightarrow> 'f BorderSizes \<Rightarrow> 'f Panel" where
  "SetPaddingsFrom (Panel a w h pos ma bo bc pa co ch) bs = Panel a w h pos ma bo bc (Some bs) co ch"

fun SetColor4 :: "'f Panel \<Rightarrow> 'f Color4 \<Rightarrow> 'f Panel" where
  "SetColor4 (Panel a w h pos ma bo bc pa co ch) c = Panel a w h pos ma bo bc pa (Some c) ch"

text \<open>
  Modelled from the spec: \<^verbatim>\<open>Panel.Add\<close> is outside the source file. The spec gives the
  constructed objects as a tree in which a child is attached to its parent, so a parent
  holds a child once: attaching a child that the panel already holds takes it out of the
  children first and puts it at the end (the engine's node removes a child from the
  parent it has before it appends it), and does not list it twice. The builder attaches
  a child only to the panel it was built under, so the parent a child already has is
  this panel. Attaching the nil interface value dereferences nil.
\<close>

fun setChildren :: "'f Panel \<Rightarrow> 'f IPanel list \<Rightarrow> 'f Panel" where
  "setChildren (Panel a w h pos ma bo bc pa co ch) ch' = Panel a w h pos ma bo bc pa co ch'"

definition Add :: "'f Panel \<Rightarrow> 'f IPanel \<Rightarrow> 'f Panel go" where
  "Add p child =
     (if child = NilIPanel then Panics NilDereference
      else Returns (setChildren p
             (filter (\<lambda>c. addrOf c \<noteq> addrOf child) (panelChildren p) @ [child])))"

definition NewLabel :: "nat \<Rightarrow> string \<Rightarrow> 'f Label" where
  "NewLabel a msg = Label a msg None"

fun SetLabelPosition :: "'f Label \<Rightarrow> 'f \<Rightarrow> 'f \<Rightarrow> 'f Label" where
  "SetLabelPosition (Label a msg pos) x y = Label a msg (Some (x, y))"

section \<open>The collaborators outside the repository's source\<close>

text \<open>
  The builder calls four things this file does not define: \<^verbatim>\<open>strconv.ParseFloat\<close> (followed
  by the conversion to \<^verbatim>\<open>float32\<close>), the colour table of \<^verbatim>\<open>math32\<close> (\<^verbatim>\<open>ColorUint\<close> gives the
  packed value of a name, \<^verbatim>\<open>Color.SetName\<close> its three components) and \<^verbatim>\<open>yaml.Unmarshal\<close>,
  once into a \<^verbatim>\<open>panelDesc\<close> and once into a \<^verbatim>\<open>map[string]*panelDesc\<close>. They are parameters
  of every function below, collected in one record.
\<close>

record 'f externals =
  ParseFloat :: "string \<Rightarrow> error + 'f"
  ColorUint :: "string \<Rightarrow> nat"
  SetName :: "string \<Rightarrow> 'f \<times> 'f \<times> 'f"
  UnmarshalNode :: "string \<Rightarrow> error + 'f panelDesc"
  UnmarshalMap :: "string \<Rightarrow> error + (string \<rightharpoonup> 'f panelDesc option)"

section \<open>Strings\<close>

text \<open>
  \<^verbatim>\<open>strings.Trim(s, cutset)\<close> drops every leading and trailing character that is in the
  cutset. \<^verbatim>\<open>strings.Index\<close> and \<^verbatim>\<open>strings.Split\<close> are called with the one-character
  separators \<^verbatim>\<open>","\<close> and \<^verbatim>\<open>" "\<close> only, so the separator is a \<open>char\<close> here. \<open>Split\<close> follows
  Go's loop: cut at the first separator, go on with the rest, and end with what is left
  (the whole string when it holds no separator, so the result is never empty).
\<close>

definition Trim :: "string \<Rightarrow> string \<Rightarrow> string" where
  "Trim s cutset =
     rev (dropWhile (\<lambda>c. c \<in> set cutset) (rev (dropWhile (\<lambda>c. c \<in> set cutset) s)))"

definition Index :: "string \<Rightarrow> char \<Rightarrow> int" where
  "Index s sep = (if sep \<in> set s then int (length (takeWhile (\<lambda>c. c \<noteq> sep) s)) else - 1)"

function Split :: "string \<Rightarrow> char \<Rightarrow> string list" where
  "Split s sep =
     (if sep \<in> set s
      then takeWhile (\<lambda>c. c \<noteq> sep) s # Split (tl (dropWhile (\<lambda>c. c \<noteq> sep) s)) sep
      else [s])"
  by pat_completeness auto
termination
proof (relation "measure (\<lambda>(s, sep). length s)")
  show "wf (measure (\<lambda>(s, sep). length s))"
    by simp
next
  fix s :: string and sep :: char
  assume "sep \<in> set s"
  then have "dropWhile (\<lambda>c. c \<noteq> sep) s \<noteq> []"
    by simp
  then have "length (tl (dropWhile (\<lambda>c. c \<noteq> sep) s)) < length (dropWhile (\<lambda>c. c \<noteq> sep) s)"
    by (cases "dropWhile (\<lambda>c. c \<noteq> sep) s") simp_all
  also have "\<dots> \<le> length s"
    by (rule length_dropWhile_le)
  finally show "((tl (dropWhile (\<lambda>c. c \<noteq> sep) s), sep), (s, sep)) \<in> measure (\<lambda>(s, sep). length s)"
    by simp
qed

declare Split.simps [simp del]

section \<open>The field parsers (lines 280 to 366)\<close>

definition err :: "string \<Rightarrow> string \<Rightarrow> string \<Rightarrow> error" where
  "err pname fname msg = ''Error in object:'' @ pname @ '' field:'' @ fname @ '' -> '' @ msg"

text \<open>The loop of lines 352 to 360, over the parts that are left.\<close>

fun parseValues :: "'f externals \<Rightarrow> string \<Rightarrow> string list \<Rightarrow> 'f list \<Rightarrow> 'f list \<times> error option" where
  "parseValues X field [] values = (values, None)"
| "parseValues X field (part # parts) values =
     (case ParseFloat X part of
        Inl e \<Rightarrow> ([], Some (''Error parsing float32 field:['' @ field @ '']: '' @ e))
      | Inr val \<Rightarrow> parseValues X field parts (values @ [val]))"

definition parseFloats ::
  "'f externals \<Rightarrow> string \<Rightarrow> string \<Rightarrow> string \<Rightarrow> int \<Rightarrow> int \<Rightarrow> 'f list \<times> error option" where
  "parseFloats X pname fname field0 minN maxN =
     (let field = Trim field0 '' '' in
      if field = [] then ([], None)
      else
        let parts = (if Index field (CHR '','') < 0 then Split field (CHR '' '')
                     else Split field (CHR '','')) in
        if int (length parts) < minN \<or> int (length parts) > maxN
        then ([], Some (err pname fname ''Invalid number of float32 values''))
        else parseValues X field parts [])"

definition parseBorderSizes ::
  "'f externals \<Rightarrow> string \<Rightarrow> string \<Rightarrow> string \<Rightarrow> ('f BorderSizes option \<times> error option) go" where
  "parseBorderSizes X pname fname field =
     (case parseFloats X pname fname field 1 4 of (va, e) \<Rightarrow>
        if va = [] \<or> e \<noteq> None then Returns (None, e)
        else if length va = 1
        then andThen (index va 0) (\<lambda>v0. Returns (Some (BorderSizes v0 v0 v0 v0), None))
        else andThen (index va 0) (\<lambda>v0. andThen (index va 1) (\<lambda>v1.
             andThen (index va 2) (\<lambda>v2. andThen (index va 3) (\<lambda>v3.
               Returns (Some (BorderSizes v0 v1 v2 v3), None))))))"

definition parseColor ::
  "('f::one) externals \<Rightarrow> string \<Rightarrow> string \<Rightarrow> string \<Rightarrow> ('f Color4 option \<times> error option) go" where
  "parseColor X pname fname field0 =
     (let field = Trim field0 '' '' in
      if field = [] then Returns (None, None)
      else if ColorUint X field \<noteq> 0
      then (case SetName X field of (r, g, b) \<Rightarrow> Returns (Some (Color4 r g b 1), None))
      else
        (case parseFloats X pname fname field 3 4 of
           (va, Some e) \<Rightarrow> Returns (None, Some e)
         | (va, None) \<Rightarrow>
             if length va = 3
             then andThen (index va 0) (\<lambda>v0. andThen (index va 1) (\<lambda>v1.
                  andThen (index va 2) (\<lambda>v2. Returns (Some (Color4 v0 v1 v2 1), None))))
             else andThen (index va 0) (\<lambda>v0. andThen (index va 1) (\<lambda>v1.
                  andThen (index va 2) (\<lambda>v2. andThen (index va 3) (\<lambda>v3.
                    Returns (Some (Color4 v0 v1 v2 v3), None)))))))"

section \<open>The recursive builder (lines 160 to 278)\<close>

text \<open>
  Each style field of \<^verbatim>\<open>buildPanel\<close> is resolved by the same three steps: parse the text;
  return \<^verbatim>\<open>nil, err\<close> on an error; call the setter when the parsed pointer is not nil.
  \<open>setFrom\<close> is these three steps, \<open>orReturn\<close> goes on with the next field unless the
  function has returned, and \<open>panelFields\<close> is lines 205 to 252. Logging is left out.
\<close>

definition setFrom ::
  "('v option \<times> error option) go \<Rightarrow> ('p \<Rightarrow> 'v \<Rightarrow> 'p) \<Rightarrow> 'p \<Rightarrow> (error + 'p) go" where
  "setFrom parsed setter pan =
     (case parsed of
        Panics p \<Rightarrow> Panics p
      | Returns (v, Some e) \<Rightarrow> Returns (Inl e)
      | Returns (None, None) \<Rightarrow> Returns (Inr pan)
      | Returns (Some x, None) \<Rightarrow> Returns (Inr (setter pan x)))"

definition orReturn :: "(error + 'p) go \<Rightarrow> ('p \<Rightarrow> (error + 'q) go) \<Rightarrow> (error + 'q) go" where
  "orReturn m k =
     (case m of Panics p \<Rightarrow> Panics p | Returns (Inl e) \<Rightarrow> Returns (Inl e) | Returns (Inr x) \<Rightarrow> k x)"

definition panelFields ::
  "('f::one) externals \<Rightarrow> 'f panelDesc \<Rightarrow> string \<Rightarrow> nat \<Rightarrow> (error + 'f Panel) go" where
  "panelFields X pd pname n =
     orReturn (setFrom (parseBorderSizes X pname fieldMargins (Margins pd)) SetMarginsFrom
                 (SetPosition (NewPanel n (Width pd) (Height pd)) (Posx pd) (Posy pd))) (\<lambda>pan.
     orReturn (setFrom (parseBorderSizes X pname fieldBorders (Borders pd)) SetBordersFrom pan) (\<lambda>pan.
     orReturn (setFrom (parseColor X pname fieldBorderColor (BorderColor pd)) SetBordersColor4 pan) (\<lambda>pan.
     orReturn (setFrom (parseBorderSizes X pname fieldPaddings (Paddings pd)) SetPaddingsFrom pan) (\<lambda>pan.
     setFrom (parseColor X pname fieldColor (Color pd)) SetColor4 pan))))"

definition buildLabel :: "'f panelDesc \<Rightarrow> string \<Rightarrow> nat \<Rightarrow> nat \<times> 'f IPanel \<times> error option" where
  "buildLabel pd name n =
     (Suc n, LabelOf (SetLabelPosition (NewLabel n (Text pd)) (Posx pd) (Posy pd)), None)"

definition buildEdit :: "'f panelDesc \<Rightarrow> string \<Rightarrow> nat \<Rightarrow> nat \<times> 'f IPanel \<times> error option" where
  "buildEdit pa name n = (n, NilIPanel, None)"

text \<open>
  \<open>build\<close> mutates the panel its \<^verbatim>\<open>parent\<close> pointer refers to, so it takes the parent and
  returns it updated, before the pair it returns in Go. \<open>buildChildren\<close> is the loop of
  lines 255 to 261 over the children that are left; the panel \<^verbatim>\<open>pan\<close> is its state, and
  after the call of \<open>build\<close> it is the object the parent pointer refers to. The last
  argument of each function is the number of objects constructed so far, and the first
  component of what it returns is that number afterwards: \<^verbatim>\<open>NewPanel\<close> and \<^verbatim>\<open>NewLabel\<close>
  construct one object each, \<^verbatim>\<open>buildEdit\<close> none.
\<close>

function build ::
    "('f::one) externals \<Rightarrow> 'f panelDesc option \<Rightarrow> string \<Rightarrow> 'f Panel option \<Rightarrow> nat
       \<Rightarrow> (nat \<times> 'f Panel option \<times> 'f IPanel \<times> error option) go"
  and buildPanel ::
    "('f::one) externals \<Rightarrow> 'f panelDesc \<Rightarrow> string \<Rightarrow> nat \<Rightarrow> (nat \<times> 'f IPanel \<times> error option) go"
  and buildChildren ::
    "('f::one) externals \<Rightarrow> 'f panelDesc option list \<Rightarrow> string \<Rightarrow> 'f Panel \<Rightarrow> nat
       \<Rightarrow> (nat \<times> 'f IPanel \<times> error option) go"
where
  "build X None pname parent n = Panics NilDereference"
| "build X (Some pd) pname parent n =
     (case (if Type pd = descTypePanel then buildPanel X pd pname n
            else if Type pd = descTypeLabel then Returns (buildLabel pd pname n)
            else if Type pd = descTypeEdit then Returns (buildEdit pd pname n)
            else Returns (n, NilIPanel, Some (''Invalid panel type:'' @ Type pd))) of
        Panics p \<Rightarrow> Panics p
      | Returns (n', pan, Some e) \<Rightarrow> Returns (n', parent, NilIPanel, Some e)
      | Returns (n', pan, None) \<Rightarrow>
          (case parent of
             None \<Rightarrow> Returns (n', None, pan, None)
           | Some q \<Rightarrow> andThen (Add q pan) (\<lambda>q'. Returns (n', Some q', pan, None))))"
| "buildPanel X pd pname n =
     (case panelFields X pd pname n of
        Panics p \<Rightarrow> Panics p
      | Returns (Inl e) \<Rightarrow> Returns (Suc n, NilIPanel, Some e)
      | Returns (Inr pan) \<Rightarrow> buildChildren X (Children pd) pname pan (Suc n))"
| "buildChildren X [] pname pan n = Returns (n, PanelOf pan, None)"
| "buildChildren X (c # cs) pname pan n =
     (case build X c pname (Some pan) n of
        Panics p \<Rightarrow> Panics p
      | Returns (n', parent, child, Some e) \<Rightarrow> Returns (n', NilIPanel, Some e)
      | Returns (n', parent, child, None) \<Rightarrow>
          (case Add (case parent of None \<Rightarrow> pan | Some q \<Rightarrow> q) child of
             Panics p \<Rightarrow> Panics p
           | Returns pan' \<Rightarrow> buildChildren X cs pname pan' n'))"
  by pat_completeness auto
termination
  apply (relation "measure (\<lambda>x. case x of
      Inl (X, pdo, pname, parent, n) \<Rightarrow> 2 * size_option size pdo
    | Inr (Inl (X, pd, pname, n)) \<Rightarrow> 2 * size pd + 1
    | Inr (Inr (X, cs, pname, pan, n)) \<Rightarrow> 2 * size_list (size_option size) cs + 1)")
      apply simp_all
  subgoal for X pd pname
    by (cases pd) simp
  done

section \<open>The registry: parsing and building by name (lines 81 to 174)\<close>

record 'f Builder =
  desc :: "string \<rightharpoonup> 'f panelDesc option"
  panels :: "'f IPanel list"

text \<open>A nil map reads as the empty map.\<close>

definition NewBuilder :: "'f Builder" where
  "NewBuilder = \<lparr>desc = Map.empty, panels = []\<rparr>"

text \<open>
  \<open>ParseString\<close> and \<open>Build\<close> have a pointer receiver, so both take the builder and
  return it, as they leave it, before what they return in Go. What they print is left out.
\<close>

definition ParseString :: "'f externals \<Rightarrow> 'f Builder \<Rightarrow> string \<Rightarrow> 'f Builder \<times> error option" where
  "ParseString X b text =
     (case UnmarshalNode X text of
        Inl e \<Rightarrow> (b, Some e)
      | Inr pd \<Rightarrow>
          if Type pd \<noteq> [] then (b\<lparr>desc := [[] \<mapsto> Some pd]\<rparr>, None)
          else
            (case UnmarshalMap X text of
               Inl e \<Rightarrow> (b, Some e)
             | Inr pdm \<Rightarrow> (b\<lparr>desc := pdm\<rparr>, None)))"

definition Build ::
  "('f::one) externals \<Rightarrow> 'f Builder \<Rightarrow> string \<Rightarrow> 'f Builder \<times> ('f IPanel \<times> error option) go" where
  "Build X b name =
     (case desc b name of
        None \<Rightarrow> (b, Returns (NilIPanel, Some (''Object name:'' @ name @ '' not found'')))
      | Some pd \<Rightarrow>
          (b, andThen (build X pd name None 0) (\<lambda>(n, parent, pan, e). Returns (pan, e))))"

section \<open>The error kinds of the specification\<close>

text \<open>
  The code has no error types; the specification names five kinds. Four of them are the
  messages the code formats at the places the specification describes; the fifth, the
  decode error, is the decoder's own error, which \<open>ParseString\<close> returns as it is.
\<close>

definition NameNotFoundError :: "string \<Rightarrow> error" where
  "NameNotFoundError name = ''Object name:'' @ name @ '' not found''"


definition FieldCountError :: "string \<Rightarrow> string \<Rightarrow> error" where
  "FieldCountError pname fname = err pname fname ''Invalid number of float32 values''"

definition FieldFormatError :: "string \<Rightarrow> error \<Rightarrow> error" where
  "FieldFormatError field cause = ''Error parsing float32 field:['' @ field @ '']: '' @ cause"

text \<open>An error message carries a name when the name stands in it.\<close>

definition carries :: "error \<Rightarrow> string \<Rightarrow> bool" where
  "carries e name = sublist name e"

section \<open>Parts of the code, named\<close>

text \<open>
  Some pieces of the functions above get a name of their own, so that a statement can
  speak of them: what \<open>parseFloats\<close> does with the parts once it has them (lines 347 to
  360: the count check, then the conversion loop), the type strings the switch of
  \<open>build\<close> knows, and the common end of \<open>build\<close> (lines 194 to 200), after the switch
  has called a constructor.
\<close>

definition countThenParse ::
  "'f externals \<Rightarrow> string \<Rightarrow> string \<Rightarrow> string \<Rightarrow> string list \<Rightarrow> int \<Rightarrow> int
     \<Rightarrow> 'f list \<times> error option" where
  "countThenParse X pname fname field parts minN maxN =
     (if int (length parts) < minN \<or> int (length parts) > maxN
      then ([], Some (FieldCountError pname fname))
      else parseValues X field parts [])"






section \<open>Words of the specification\<close>

text \<open>
  The specification speaks of whitespace, and of splitting on a separator exclusively.
  \<open>spec_isWhitespace\<close> is the ASCII whitespace (space, tab, line feed, vertical tab, form
  feed, carriage return) and \<open>spec_trimWhitespace\<close> drops it at both ends. \<open>joinWith\<close>
  puts the separator back between the parts: parts that hold no separator and join to a
  text are that text split on the separator, and on nothing else.
\<close>

definition spec_isWhitespace :: "char \<Rightarrow> bool" where
  "spec_isWhitespace c = (c \<in> set [CHR '' '', CHR 0x09, CHR 0x0A, CHR 0x0B, CHR 0x0C, CHR 0x0D])"

definition spec_trimWhitespace :: "string \<Rightarrow> string" where
  "spec_trimWhitespace s = rev (dropWhile spec_isWhitespace (rev (dropWhile spec_isWhitespace s)))"

fun joinWith :: "char \<Rightarrow> string list \<Rightarrow> string" where
  "joinWith sep [] = []"
| "joinWith sep [p] = p"
| "joinWith sep (p # q # ps) = p @ sep # joinWith sep (q # ps)"

definition separator :: "string \<Rightarrow> char" where
  "separator field = (if CHR '','' \<in> set field then CHR '','' else CHR '' '')"

definition isSplitOn :: "char \<Rightarrow> string \<Rightarrow> string list \<Rightarrow> bool" where
  "isSplitOn sep s parts =
     (parts \<noteq> [] \<and> list_all (\<lambda>p. sep \<notin> set p) parts \<and> joinWith sep parts = s)"

section \<open>Concrete collaborators for evaluation\<close>

text \<open>
  To run the builder on a concrete input the parameters need values. These stand in for
  the libraries on the few texts the examples below use, with \<open>int\<close> for \<^verbatim>\<open>float32\<close>:
  a number is a non-empty run of decimal digits (the real parser accepts more, and
  rejects every text rejected here that the examples use: the empty text, a letter, a
  tab); \<^verbatim>\<open>red\<close> and \<^verbatim>\<open>black\<close> are colour names, packed as \<^verbatim>\<open>0xFF0000\<close> and \<^verbatim>\<open>0\<close>; the decoder
  knows five documents. In the document \<^verbatim>\<open>text: {type: Label}\<close> the root is named like the
  string field \<^verbatim>\<open>Text\<close> of \<^verbatim>\<open>panelDesc\<close>: decoding it into the struct fails (a mapping does
  not fit a string), decoding it into the map succeeds. The document \<^verbatim>\<open>foo: bar\<close> decodes into
  the struct, which has no field of that name and stays at its zero value, and not into
  the map (a string is no description).
\<close>

definition sampleSyntaxError :: "string \<Rightarrow> error" where
  "sampleSyntaxError s =
     ''strconv.ParseFloat: parsing '' @ [CHR 0x22] @ s @ [CHR 0x22] @ '': invalid syntax''"

definition sampleParseFloat :: "string \<Rightarrow> error + int" where
  "sampleParseFloat s =
     (if s \<noteq> [] \<and> list_all (\<lambda>c. c \<in> set ''0123456789'') s
      then Inr (foldl (\<lambda>n c. 10 * n + (int (of_char c) - 48)) 0 s)
      else Inl (sampleSyntaxError s))"

definition sampleColorUint :: "string \<Rightarrow> nat" where
  "sampleColorUint name = (if name = ''red'' then 0xFF0000 else 0)"

definition sampleSetName :: "string \<Rightarrow> int \<times> int \<times> int" where
  "sampleSetName name = (if name = ''red'' then (1, 0, 0) else (0, 0, 0))"

text \<open>A description with the given type, margins, text and children, and Go's zero value in every other field.\<close>

definition descOf :: "string \<Rightarrow> string \<Rightarrow> string \<Rightarrow> int panelDesc option list \<Rightarrow> int panelDesc" where
  "descOf ty margins txt children =
     PanelDesc ty [] 0 0 0 0 margins [] [] [] [] False False False children
       (LayoutAttr []) None txt None None [] None"

definition sampleUnmarshalNode :: "string \<Rightarrow> error + int panelDesc" where
  "sampleUnmarshalNode text =
     (if text = ''type: Edit'' then Inr (descOf ''Edit'' [] [] [])
      else if text = ''type: Label'' then Inr (descOf ''Label'' [] [] [])
      else if text = ''win: {type: Label}'' \<or> text = ''foo: bar'' then Inr (descOf [] [] [] [])
      else if text = ''text: {type: Label}''
      then Inl ''yaml: unmarshal errors: line 1: cannot unmarshal !!map into string''
      else Inl ''yaml: did not find expected node content'')"

definition sampleUnmarshalMap :: "string \<Rightarrow> error + (string \<rightharpoonup> int panelDesc option)" where
  "sampleUnmarshalMap text =
     (if text = ''win: {type: Label}'' then Inr [''win'' \<mapsto> Some (descOf ''Label'' [] [] [])]
      else if text = ''text: {type: Label}'' then Inr [''text'' \<mapsto> Some (descOf ''Label'' [] [] [])]
      else if text = ''type: Edit'' \<or> text = ''type: Label'' \<or> text = ''foo: bar''
      then Inl ''yaml: unmarshal errors: line 1: cannot unmarshal !!str into gui.panelDesc''
      else Inl ''yaml: did not find expected node content'')"

definition sampleExternals :: "int externals" where
  "sampleExternals =
     \<lparr>ParseFloat = sampleParseFloat, ColorUint = sampleColorUint, SetName = sampleSetName,
      UnmarshalNode = sampleUnmarshalNode, UnmarshalMap = sampleUnmarshalMap\<rparr>"

definition sampleBuilder :: "int Builder" where
  "sampleBuilder = \<lparr>desc = [''win'' \<mapsto> Some (descOf ''Label'' [] ''hi'' [])], panels = []\<rparr>"

section \<open>Strings: facts\<close>

lemma Split_not_Nil: "Split s sep \<noteq> []"
  by (subst Split.simps) simp

lemma Trim_Nil_iff: "Trim s cs = [] \<longleftrightarrow> set s \<subseteq> set cs"
proof -
  let ?P = "\<lambda>c. c \<in> set cs"
  have "Trim s cs = [] \<longleftrightarrow> dropWhile ?P (rev (dropWhile ?P s)) = []"
    unfolding Trim_def by (simp only: rev_is_Nil_conv)
  also have "\<dots> \<longleftrightarrow> (\<forall>x \<in> set (dropWhile ?P s). ?P x)"
    by (simp only: dropWhile_eq_Nil_conv set_rev)
  also have "\<dots> \<longleftrightarrow> dropWhile ?P s = []"
  proof (cases "dropWhile ?P s")
    case Nil
    then show ?thesis by (simp del: dropWhile_eq_Nil_conv)
  next
    case (Cons a list)
    then have "\<not> ?P a"
      using hd_dropWhile[of ?P s] by (simp del: dropWhile_eq_Nil_conv)
    with Cons show ?thesis by (simp del: dropWhile_eq_Nil_conv)
  qed
  also have "\<dots> \<longleftrightarrow> set s \<subseteq> set cs"
    by auto
  finally show ?thesis .
qed

lemma rev_dropWhile_takeWhile:
  "rev (dropWhile P (rev xs)) @ rev (takeWhile P (rev xs)) = xs"
proof -
  have "rev (takeWhile P (rev xs) @ dropWhile P (rev xs)) = xs"
    by (simp only: takeWhile_dropWhile_id rev_rev_ident)
  then show ?thesis
    by (simp only: rev_append)
qed

lemma Trim_decompose:
  "\<exists>a b. s = a @ Trim s cs @ b \<and> set a \<subseteq> set cs \<and> set b \<subseteq> set cs"
proof -
  let ?P = "\<lambda>c. c \<in> set cs"
  let ?a = "takeWhile ?P s"
  let ?b = "rev (takeWhile ?P (rev (dropWhile ?P s)))"
  have "s = ?a @ Trim s cs @ ?b"
    by (simp only: Trim_def rev_dropWhile_takeWhile takeWhile_dropWhile_id)
  moreover have "set ?a \<subseteq> set cs"
    by (auto dest: set_takeWhileD)
  moreover have "set ?b \<subseteq> set cs"
    by (auto dest: set_takeWhileD)
  ultimately show ?thesis by blast
qed

lemma Trim_mem: "c \<notin> set cs \<Longrightarrow> c \<in> set (Trim s cs) \<longleftrightarrow> c \<in> set s"
proof -
  assume c: "c \<notin> set cs"
  obtain a b where s: "s = a @ Trim s cs @ b" and a: "set a \<subseteq> set cs" and b: "set b \<subseteq> set cs"
    using Trim_decompose by blast
  have "set s = set a \<union> set (Trim s cs) \<union> set b"
    by (subst s) auto
  with a b c show ?thesis by auto
qed

lemma Index_negative: "Index s sep < 0 \<longleftrightarrow> sep \<notin> set s"
  by (simp add: Index_def)

lemma joinWith_Cons: "ps \<noteq> [] \<Longrightarrow> joinWith sep (p # ps) = p @ sep # joinWith sep ps"
  by (cases ps) simp_all

lemma joinWith_Split: "joinWith sep (Split s sep) = s"
proof (induction s sep rule: Split.induct)
  case (1 s sep)
  show ?case
  proof (cases "sep \<in> set s")
    case True
    let ?r = "tl (dropWhile (\<lambda>c. c \<noteq> sep) s)"
    from True have d: "dropWhile (\<lambda>c. c \<noteq> sep) s = sep # ?r"
      by (metis (mono_tags, lifting) dropWhile_eq_Nil_conv hd_dropWhile list.collapse)
    have "joinWith sep (Split s sep) = takeWhile (\<lambda>c. c \<noteq> sep) s @ sep # joinWith sep (Split ?r sep)"
      using True by (subst Split.simps) (simp add: joinWith_Cons Split_not_Nil)
    also have "\<dots> = takeWhile (\<lambda>c. c \<noteq> sep) s @ sep # ?r"
      using 1 True by simp
    also have "\<dots> = s"
      using d takeWhile_dropWhile_id[of "\<lambda>c. c \<noteq> sep" s] by simp
    finally show ?thesis .
  next
    case False
    then show ?thesis by (subst Split.simps) simp
  qed
qed

lemma Split_parts_free: "list_all (\<lambda>p. sep \<notin> set p) (Split s sep)"
proof (induction s sep rule: Split.induct)
  case (1 s sep)
  show ?case
  proof (cases "sep \<in> set s")
    case True
    have "sep \<notin> set (takeWhile (\<lambda>c. c \<noteq> sep) s)"
      by (auto dest: set_takeWhileD)
    with 1 True show ?thesis by (subst Split.simps) simp
  next
    case False
    then show ?thesis by (subst Split.simps) simp
  qed
qed


lemma sepfree_append_eq:
  "sep \<notin> set p \<Longrightarrow> sep \<notin> set q \<Longrightarrow> p @ sep # r = q @ sep # r' \<Longrightarrow> p = q \<and> r = r'"
proof (induction p arbitrary: q)
  case Nil
  then show ?case by (cases q) simp_all
next
  case (Cons a p)
  show ?case
  proof (cases q)
    case Nil
    with Cons.prems show ?thesis by simp
  next
    case (Cons b q')
    with Cons.prems have "a = b" and "p @ sep # r = q' @ sep # r'" and "sep \<notin> set p" and "sep \<notin> set q'"
      by simp_all
    with Cons.IH[of q'] Cons show ?thesis by simp
  qed
qed

lemma joinWith_inject:
  "ps \<noteq> [] \<Longrightarrow> qs \<noteq> [] \<Longrightarrow> list_all (\<lambda>p. sep \<notin> set p) ps \<Longrightarrow> list_all (\<lambda>p. sep \<notin> set p) qs \<Longrightarrow>
   joinWith sep ps = joinWith sep qs \<Longrightarrow> ps = qs"
proof (induction ps arbitrary: qs)
  case Nil
  then show ?case by simp
next
  case (Cons p ps)
  then obtain q qs' where qs: "qs = q # qs'" by (cases qs) auto
  from Cons.prems qs have free: "sep \<notin> set p" "sep \<notin> set q"
    and rest: "list_all (\<lambda>p. sep \<notin> set p) ps" "list_all (\<lambda>p. sep \<notin> set p) qs'"
    by simp_all
  from Cons.prems(5) qs have eq: "joinWith sep (p # ps) = joinWith sep (q # qs')"
    by simp
  show ?case
  proof (cases "ps = []")
    case True
    show ?thesis
    proof (cases "qs' = []")
      case True
      with \<open>ps = []\<close> eq qs show ?thesis by simp
    next
      case False
      with \<open>ps = []\<close> eq have "p = q @ sep # joinWith sep qs'"
        by (simp add: joinWith_Cons)
      then have "sep \<in> set p"
        by (rule ssubst) simp
      with free show ?thesis by simp
    qed
  next
    case False
    show ?thesis
    proof (cases "qs' = []")
      case True
      with False eq have "p @ sep # joinWith sep ps = q"
        by (simp add: joinWith_Cons)
      then have "sep \<in> set q"
        by (rule subst) simp
      with free show ?thesis by simp
    next
      case qne: False
      with False eq have "p @ sep # joinWith sep ps = q @ sep # joinWith sep qs'"
        by (simp add: joinWith_Cons)
      with free have "p = q \<and> joinWith sep ps = joinWith sep qs'"
        by (rule sepfree_append_eq)
      with Cons.IH[of qs'] False qne rest qs show ?thesis by simp
    qed
  qed
qed

text \<open>So \<open>isSplitOn\<close> holds of the parts \<open>Split\<close> returns, and of no others.\<close>

lemma isSplitOn_Split: "isSplitOn sep s parts \<longleftrightarrow> parts = Split s sep"
proof
  assume "isSplitOn sep s parts"
  then have "parts \<noteq> []" and "list_all (\<lambda>p. sep \<notin> set p) parts"
    and "joinWith sep parts = joinWith sep (Split s sep)"
    by (simp_all add: isSplitOn_def joinWith_Split)
  then show "parts = Split s sep"
    using joinWith_inject[of parts "Split s sep" sep] Split_not_Nil[of s sep] Split_parts_free[of sep s]
    by blast
next
  assume "parts = Split s sep"
  then show "isSplitOn sep s parts"
    by (simp add: isSplitOn_def Split_not_Nil Split_parts_free joinWith_Split)
qed

lemma Trim_idem: "Trim (Trim s cs) cs = Trim s cs"
proof -
  let ?P = "\<lambda>c. c \<in> set cs"
  let ?t = "dropWhile ?P s"
  let ?u = "Trim s cs"
  have u: "rev ?u = dropWhile ?P (rev ?t)"
    by (simp only: Trim_def rev_rev_ident)
  have t: "?u @ rev (takeWhile ?P (rev ?t)) = ?t"
    unfolding Trim_def by (rule rev_dropWhile_takeWhile)
  have front: "dropWhile ?P ?u = ?u"
  proof (cases ?u)
    case Nil
    then show ?thesis by simp
  next
    case (Cons a list)
    with t have "?t \<noteq> []" and "hd ?t = a"
      by (metis append_is_Nil_conv list.distinct(1), metis hd_append2 list.distinct(1) list.sel(1))
    then have "\<not> ?P a"
      using hd_dropWhile[of ?P s] by (simp del: dropWhile_eq_Nil_conv)
    with Cons show ?thesis by simp
  qed
  have "Trim ?u cs = rev (dropWhile ?P (rev (dropWhile ?P ?u)))"
    by (simp only: Trim_def)
  also have "\<dots> = rev (dropWhile ?P (rev ?u))"
    by (simp only: front)
  also have "\<dots> = rev (dropWhile ?P (dropWhile ?P (rev ?t)))"
    by (simp only: u)
  also have "\<dots> = rev (dropWhile ?P (rev ?t))"
    by (simp only: dropWhile_idem)
  also have "\<dots> = ?u"
    by (simp only: Trim_def)
  finally show ?thesis .
qed

lemma Trim_ends:
  "Trim s cs = [] \<or> (hd (Trim s cs) \<notin> set cs \<and> last (Trim s cs) \<notin> set cs)"
proof (cases "Trim s cs")
  case Nil
  then show ?thesis by simp
next
  case (Cons a list)
  let ?P = "\<lambda>c. c \<in> set cs"
  let ?t = "dropWhile ?P s"
  let ?u = "Trim s cs"
  have t: "?u @ rev (takeWhile ?P (rev ?t)) = ?t"
    unfolding Trim_def by (rule rev_dropWhile_takeWhile)
  with Cons have "?t \<noteq> []" and "hd ?t = hd ?u"
    by (metis append_is_Nil_conv list.distinct(1), metis hd_append2 list.distinct(1))
  then have front: "\<not> ?P (hd ?u)"
    using hd_dropWhile[of ?P s] by (simp del: dropWhile_eq_Nil_conv)
  have u: "rev ?u = dropWhile ?P (rev ?t)"
    by (simp only: Trim_def rev_rev_ident)
  with Cons have "dropWhile ?P (rev ?t) \<noteq> []"
    by (metis list.distinct(1) rev_is_Nil_conv)
  then have "\<not> ?P (hd (dropWhile ?P (rev ?t)))"
    by (rule hd_dropWhile)
  then have "\<not> ?P (hd (rev ?u))"
    unfolding u .
  then have rear: "\<not> ?P (last ?u)"
    unfolding hd_rev .
  from front rear show ?thesis
    by blast
qed

text \<open>
  The trimmed text is the only text that has nothing of the cutset at its ends and that
  the string is made of with only characters of the cutset before and after it.
\<close>

lemma Trim_unique:
  assumes s: "s = a @ t @ b" and a: "set a \<subseteq> set cs" and b: "set b \<subseteq> set cs"
    and ends: "t = [] \<or> (hd t \<notin> set cs \<and> last t \<notin> set cs)"
  shows "Trim s cs = t"
proof (cases "t = []")
  case True
  with s a b have "set s \<subseteq> set cs"
    by auto
  with True show ?thesis
    by (simp add: Trim_Nil_iff)
next
  case False
  let ?P = "\<lambda>c. c \<in> set cs"
  from False ends have h: "\<not> ?P (hd t)" and l: "\<not> ?P (last t)"
    by simp_all
  from a have "dropWhile ?P (a @ t @ b) = dropWhile ?P (t @ b)"
    by (simp add: dropWhile_append2 subset_iff)
  also from False h have "\<dots> = t @ b"
    by (cases t) simp_all
  finally have 1: "dropWhile ?P s = t @ b"
    by (simp only: s)
  have "dropWhile ?P (rev b @ rev t) = dropWhile ?P (rev t)"
    by (rule dropWhile_append2) (use b in auto)
  also from False l have "\<dots> = rev t"
    by (cases "rev t") (simp_all add: last_rev[symmetric] del: last_rev)
  finally have 2: "dropWhile ?P (rev (t @ b)) = rev t"
    by simp
  show ?thesis
    unfolding Trim_def 1 2 by simp
qed

lemma parseValues_length:
  "parseValues X field parts acc = (vs, None) \<Longrightarrow> length vs = length acc + length parts"
  by (induction parts arbitrary: acc) (auto split: sum.splits)

lemma parseValues_error:
  "parseValues X field parts acc = (vs, Some e) \<Longrightarrow>
   vs = [] \<and> (\<exists>part cause. part \<in> set parts \<and> ParseFloat X part = Inl cause \<and> e = FieldFormatError field cause)"
proof (induction parts arbitrary: acc)
  case Nil
  then show ?case by simp
next
  case (Cons p parts)
  show ?case
  proof (cases "ParseFloat X p")
    case (Inl c)
    with Cons.prems have "vs = []" and "e = FieldFormatError field c"
      by (simp_all add: FieldFormatError_def)
    with Inl show ?thesis
      by (intro conjI exI[of _ p] exI[of _ c]) simp_all
  next
    case (Inr v)
    with Cons.prems have "parseValues X field parts (acc @ [v]) = (vs, Some e)"
      by simp
    from Cons.IH[OF this] show ?thesis
      by auto
  qed
qed

lemma separator_Trim: "separator (Trim field '' '') = separator field"
  by (simp add: separator_def Trim_mem)

lemma parseFloats_unfold:
  "parseFloats X pname fname field minN maxN =
     (if set field \<subseteq> {CHR '' ''} then ([], None)
      else countThenParse X pname fname (Trim field '' '')
             (Split (Trim field '' '') (separator field)) minN maxN)"
proof -
  have sep: "(if Index (Trim field '' '') (CHR '','') < 0 then Split (Trim field '' '') (CHR '' '')
              else Split (Trim field '' '') (CHR '','')) = Split (Trim field '' '') (separator field)"
    by (simp add: Index_negative separator_def Trim_mem)
  have blank: "Trim field '' '' = [] \<longleftrightarrow> set field \<subseteq> {CHR '' ''}"
    by (simp add: Trim_Nil_iff)
  show ?thesis
    unfolding parseFloats_def Let_def sep blank countThenParse_def FieldCountError_def ..
qed

lemma countThenParse_not_absent:
  "parts \<noteq> [] \<Longrightarrow> countThenParse X pname fname field parts minN maxN \<noteq> ([], None)"
proof
  assume ne: "parts \<noteq> []" and "countThenParse X pname fname field parts minN maxN = ([], None)"
  then have "parseValues X field parts [] = ([], None)"
    by (simp add: countThenParse_def split: if_splits)
  then have "length ([]::'a list) = length ([]::'a list) + length parts"
    by (rule parseValues_length)
  with ne show False by simp
qed

section \<open>Trimming and splitting a field\<close>

text \<open>
  Claim C5, as the code has it. \<open>parseFloats\<close> trims the space character only, at both
  ends: the field is the trimmed field with nothing but spaces before and after it, and
  the trimmed field neither starts nor ends with a space. It returns the absent result
  (no values, no error) exactly when the field is empty or all spaces. Otherwise the
  trimmed field is split at every comma and nowhere else when the field holds a comma
  (spaces stay inside the parts), and at every single space when it holds none; the parts
  then go through the count check and the conversion.
\<close>

theorem parseFloats_trims_spaces_and_splits:
  "parseFloats X pname fname field minN maxN =
     (if set field \<subseteq> {CHR '' ''} then ([], None)
      else countThenParse X pname fname (Trim field '' '')
             (Split (Trim field '' '') (separator field)) minN maxN)
   \<and> isSplitOn (separator field) (Trim field '' '') (Split (Trim field '' '') (separator field))
   \<and> (\<exists>a b. field = a @ Trim field '' '' @ b \<and> set a \<subseteq> {CHR '' ''} \<and> set b \<subseteq> {CHR '' ''})
   \<and> (Trim field '' '' = []
        \<or> (hd (Trim field '' '') \<noteq> CHR '' '' \<and> last (Trim field '' '') \<noteq> CHR '' ''))
   \<and> ((parseFloats X pname fname field minN maxN = ([], None)) = (set field \<subseteq> {CHR '' ''}))"
proof -
  have 1: "parseFloats X pname fname field minN maxN =
     (if set field \<subseteq> {CHR '' ''} then ([], None)
      else countThenParse X pname fname (Trim field '' '')
             (Split (Trim field '' '') (separator field)) minN maxN)"
    by (rule parseFloats_unfold)
  have 2: "isSplitOn (separator field) (Trim field '' '') (Split (Trim field '' '') (separator field))"
    by (simp add: isSplitOn_def Split_not_Nil Split_parts_free joinWith_Split)
  have 3: "\<exists>a b. field = a @ Trim field '' '' @ b \<and> set a \<subseteq> {CHR '' ''} \<and> set b \<subseteq> {CHR '' ''}"
    using Trim_decompose[of field "'' ''"] by simp
  have 4: "(parseFloats X pname fname field minN maxN = ([], None)) = (set field \<subseteq> {CHR '' ''})"
    by (simp add: 1 countThenParse_not_absent Split_not_Nil)
  have 5: "Trim field '' '' = []
        \<or> (hd (Trim field '' '') \<noteq> CHR '' '' \<and> last (Trim field '' '') \<noteq> CHR '' '')"
    using Trim_ends[of field "'' ''"] by simp
  from 1 2 3 4 5 show ?thesis by blast
qed

text \<open>
  The theorem at the field \<^verbatim>\<open>" 1, 2 "\<close>, where the comma wins and the second part keeps
  its space, and at the field \<^verbatim>\<open>"1  2"\<close>, where two spaces in a row give an empty part.
\<close>

theorem parseFloats_trims_spaces_and_splits_witness:
  "parseFloats sampleExternals ''win'' ''margins'' '' 1, 2 '' 1 4
     = countThenParse sampleExternals ''win'' ''margins'' ''1, 2'' [''1'', '' 2''] 1 4
   \<and> isSplitOn (CHR '','') ''1, 2'' [''1'', '' 2'']
   \<and> parseFloats sampleExternals ''win'' ''margins'' ''1  2'' 1 4
     = countThenParse sampleExternals ''win'' ''margins'' ''1  2'' [''1'', [], ''2''] 1 4
   \<and> isSplitOn (CHR '' '') ''1  2'' [''1'', [], ''2'']
   \<and> Trim '' 1, 2 '' '' '' = ''1, 2''
   \<and> hd ''1, 2'' \<noteq> CHR '' '' \<and> last ''1, 2'' \<noteq> CHR '' ''"
proof -
  have t: "Trim '' 1, 2 '' '' '' = ''1, 2''" "Trim ''1  2'' '' '' = ''1  2''"
    by code_simp+
  have s: "separator '' 1, 2 '' = CHR '',''" "separator ''1  2'' = CHR '' ''"
    by code_simp+
  have p: "Split ''1, 2'' (CHR '','') = [''1'', '' 2'']" "Split ''1  2'' (CHR '' '') = [''1'', [], ''2'']"
    by code_simp+
  have b: "\<not> set '' 1, 2 '' \<subseteq> {CHR '' ''}" "\<not> set ''1  2'' \<subseteq> {CHR '' ''}"
    by simp_all
  from parseFloats_trims_spaces_and_splits[of sampleExternals "''win''" "''margins''" "'' 1, 2 ''" 1 4]
    parseFloats_trims_spaces_and_splits[of sampleExternals "''win''" "''margins''" "''1  2''" 1 4]
  show ?thesis
    unfolding t s p using b t(1) by simp
qed

text \<open>
  Claim C5 as the specification words it fails on a tab: the field is empty once its
  whitespace is trimmed, yet the code keeps the tab, finds one part and returns a format
  error, not the absent result.
\<close>

theorem parseFloats_tab_counterexample:
  "spec_trimWhitespace [CHR 0x09] = []
   \<and> parseFloats sampleExternals ''win'' ''margins'' [CHR 0x09] 1 4
       = ([], Some (FieldFormatError [CHR 0x09] (sampleSyntaxError [CHR 0x09])))"
  by code_simp

section \<open>The results of the field parsers\<close>

lemma Trim_blank_iff: "set (Trim s cs) \<subseteq> set cs \<longleftrightarrow> Trim s cs = []"
  using Trim_Nil_iff[of "Trim s cs" cs] by (simp only: Trim_idem)

lemma Trim_space_not_blank: "Trim field '' '' \<noteq> [] \<Longrightarrow> \<not> set (Trim field '' '') \<subseteq> {CHR '' ''}"
  using Trim_blank_iff[of field "'' ''"] by simp

lemma parseFloats_ok:
  "parseFloats X pname fname field minN maxN = (va, None) \<Longrightarrow> \<not> set field \<subseteq> {CHR '' ''} \<Longrightarrow>
   minN \<le> int (length va) \<and> int (length va) \<le> maxN
   \<and> length va = length (Split (Trim field '' '') (separator field))"
proof -
  assume r: "parseFloats X pname fname field minN maxN = (va, None)" and nb: "\<not> set field \<subseteq> {CHR '' ''}"
  let ?parts = "Split (Trim field '' '') (separator field)"
  from r nb have c: "countThenParse X pname fname (Trim field '' '') ?parts minN maxN = (va, None)"
    by (simp add: parseFloats_unfold)
  then have inr: "\<not> (int (length ?parts) < minN \<or> int (length ?parts) > maxN)"
    by (auto simp: countThenParse_def split: if_splits)
  with c have "parseValues X (Trim field '' '') ?parts [] = (va, None)"
    by (simp add: countThenParse_def)
  then have "length va = length ([]::'a list) + length ?parts"
    by (rule parseValues_length)
  with inr show ?thesis by simp
qed

lemma parseFloats_error:
  "parseFloats X pname fname field minN maxN = (va, Some e) \<Longrightarrow>
   va = [] \<and> (e = FieldCountError pname fname
     \<or> (\<exists>part cause. ParseFloat X part = Inl cause \<and> e = FieldFormatError (Trim field '' '') cause))"
proof -
  assume r: "parseFloats X pname fname field minN maxN = (va, Some e)"
  let ?parts = "Split (Trim field '' '') (separator field)"
  from r have nb: "\<not> set field \<subseteq> {CHR '' ''}"
    by (auto simp: parseFloats_unfold split: if_splits)
  with r have c: "countThenParse X pname fname (Trim field '' '') ?parts minN maxN = (va, Some e)"
    by (simp add: parseFloats_unfold)
  show ?thesis
  proof (cases "int (length ?parts) < minN \<or> int (length ?parts) > maxN")
    case True
    with c show ?thesis by (auto simp: countThenParse_def)
  next
    case False
    with c have "parseValues X (Trim field '' '') ?parts [] = (va, Some e)"
      by (simp add: countThenParse_def)
    from parseValues_error[OF this] show ?thesis by blast
  qed
qed

lemma length3: "length va = 3 \<Longrightarrow> \<exists>r g b. va = [r, g, b]"
  by (cases va; cases "tl va"; cases "tl (tl va)") auto

lemma length4: "length va = 4 \<Longrightarrow> \<exists>r g b a. va = [r, g, b, a]"
  by (cases va; cases "tl va"; cases "tl (tl va)"; cases "tl (tl (tl va))") auto

lemma parseColor_numeric:
  assumes ne: "Trim field '' '' \<noteq> []" and zero: "ColorUint X (Trim field '' '') = 0"
  shows "(\<exists>e. parseFloats X pname fname (Trim field '' '') 3 4 = ([], Some e)
            \<and> parseColor X pname fname field = Returns (None, Some e))
       \<or> (\<exists>r g b. parseFloats X pname fname (Trim field '' '') 3 4 = ([r, g, b], None)
            \<and> parseColor X pname fname field = Returns (Some (Color4 r g b 1), None))
       \<or> (\<exists>r g b a. parseFloats X pname fname (Trim field '' '') 3 4 = ([r, g, b, a], None)
            \<and> parseColor X pname fname field = Returns (Some (Color4 r g b a), None))"
proof -
  let ?f = "Trim field '' ''"
  obtain va eo where r: "parseFloats X pname fname ?f 3 4 = (va, eo)"
    by (cases "parseFloats X pname fname ?f 3 4")
  show ?thesis
  proof (cases eo)
    case (Some e)
    with r have "va = []"
      using parseFloats_error[of X pname fname ?f 3 4 va e] by simp
    with r Some ne zero show ?thesis
      by (simp add: parseColor_def)
  next
    case None
    from ne have "\<not> set ?f \<subseteq> {CHR '' ''}"
      by (rule Trim_space_not_blank)
    with r None have "3 \<le> int (length va) \<and> int (length va) \<le> 4"
      using parseFloats_ok[of X pname fname ?f 3 4 va] by simp
    then consider "length va = 3" | "length va = 4"
      by linarith
    then show ?thesis
    proof cases
      case 1
      then obtain r' g b where "va = [r', g, b]"
        using length3 by blast
      with r None ne zero show ?thesis
        by (simp add: parseColor_def index_def andThen_def)
    next
      case 2
      then obtain r' g b a where "va = [r', g, b, a]"
        using length4 by blast
      with r None ne zero show ?thesis
        by (simp add: parseColor_def index_def andThen_def)
    qed
  qed
qed

text \<open>
  A size set by the number of values: one value is broadcast, four are taken in order,
  and two or three (the only other counts the bounds 1 and 4 let through) end in a panic.
\<close>

lemma length_cases_1_to_4:
  "1 \<le> int (length va) \<Longrightarrow> int (length va) \<le> 4 \<Longrightarrow>
   length va = 1 \<or> length va = 2 \<or> length va = 3 \<or> length va = 4"
  by linarith

lemma parseBorderSizes_by_count:
  assumes r: "parseFloats X pname fname field 1 4 = (va, None)" and ne: "va \<noteq> []"
  shows "parseBorderSizes X pname fname field =
     (if length va = 1 then Returns (Some (BorderSizes (va ! 0) (va ! 0) (va ! 0) (va ! 0)), None)
      else if length va = 4 then Returns (Some (BorderSizes (va ! 0) (va ! 1) (va ! 2) (va ! 3)), None)
      else Panics (IndexOutOfRange (length va) (length va)))"
proof -
  from r ne have "\<not> set field \<subseteq> {CHR '' ''}"
    by (auto simp: parseFloats_unfold split: if_splits)
  with r have "1 \<le> int (length va)" and "int (length va) \<le> 4"
    using parseFloats_ok[of X pname fname field 1 4 va] by simp_all
  then consider "length va = 1" | "length va = 2" | "length va = 3" | "length va = 4"
    using length_cases_1_to_4 by blast
  then show ?thesis
    using r ne by cases (simp_all add: parseBorderSizes_def andThen_def index_def)
qed

text \<open>
  The count error holds the names it was made with. The format error is none of the
  count errors, and the call returns it whatever the object and the field are called.
\<close>

lemma count_error_carries_names:
  "carries (FieldCountError pname fname) pname" "carries (FieldCountError pname fname) fname"
proof -
  have "FieldCountError pname fname
      = ''Error in object:'' @ pname @ ('' field:'' @ fname @ '' -> Invalid number of float32 values'')"
    by (simp add: FieldCountError_def err_def)
  then show "carries (FieldCountError pname fname) pname"
    unfolding carries_def sublist_def by blast
  have "FieldCountError pname fname
      = (''Error in object:'' @ pname @ '' field:'') @ fname @ '' -> Invalid number of float32 values''"
    by (simp add: FieldCountError_def err_def)
  then show "carries (FieldCountError pname fname) fname"
    unfolding carries_def sublist_def by blast
qed

lemma format_error_not_count_error: "FieldFormatError f c \<noteq> FieldCountError pname fname"
  by (simp add: FieldFormatError_def FieldCountError_def err_def)

lemma format_error_ignores_names:
  assumes "parseFloats X pname fname field minN maxN = (va, Some (FieldFormatError f c))"
  shows "parseFloats X pname' fname' field minN maxN = (va, Some (FieldFormatError f c))"
  using assms
  by (auto simp: parseFloats_unfold countThenParse_def format_error_not_count_error[symmetric]
      split: if_splits)

section \<open>Colour names and the packed value zero\<close>

text \<open>
  Claim C10. \<open>parseColor\<close> takes a non-empty (trimmed) text as a colour name exactly when
  the packed value the colour table gives for it is not zero. A text whose packed value is
  zero, be it unknown or a name whose colour is black, goes to the number parser with the
  bounds 3 and 4: it gives a colour from three or four numbers, or the parser's error;
  and when it does not split into three or four parts the result is the count error, not
  a colour.
\<close>

theorem parseColor_name_needs_nonzero_lookup:
  "Trim field '' '' \<noteq> [] \<Longrightarrow>
   (ColorUint X (Trim field '' '') \<noteq> 0 \<longrightarrow>
      parseColor X pname fname field =
        (case SetName X (Trim field '' '') of (r, g, b) \<Rightarrow> Returns (Some (Color4 r g b 1), None)))
   \<and> (ColorUint X (Trim field '' '') = 0 \<longrightarrow>
        (\<exists>e. parseFloats X pname fname (Trim field '' '') 3 4 = ([], Some e)
            \<and> parseColor X pname fname field = Returns (None, Some e))
      \<or> (\<exists>r g b. parseFloats X pname fname (Trim field '' '') 3 4 = ([r, g, b], None)
            \<and> parseColor X pname fname field = Returns (Some (Color4 r g b 1), None))
      \<or> (\<exists>r g b a. parseFloats X pname fname (Trim field '' '') 3 4 = ([r, g, b, a], None)
            \<and> parseColor X pname fname field = Returns (Some (Color4 r g b a), None)))
   \<and> (ColorUint X (Trim field '' '') = 0 \<longrightarrow>
        length (Split (Trim field '' '') (separator field)) \<noteq> 3 \<longrightarrow>
        length (Split (Trim field '' '') (separator field)) \<noteq> 4 \<longrightarrow>
        parseColor X pname fname field = Returns (None, Some (FieldCountError pname fname)))"
proof (intro conjI impI)
  assume "Trim field '' '' \<noteq> []" and "ColorUint X (Trim field '' '') \<noteq> 0"
  then show "parseColor X pname fname field =
        (case SetName X (Trim field '' '') of (r, g, b) \<Rightarrow> Returns (Some (Color4 r g b 1), None))"
    by (simp add: parseColor_def)
next
  assume "Trim field '' '' \<noteq> []" and "ColorUint X (Trim field '' '') = 0"
  then show "(\<exists>e. parseFloats X pname fname (Trim field '' '') 3 4 = ([], Some e)
            \<and> parseColor X pname fname field = Returns (None, Some e))
      \<or> (\<exists>r g b. parseFloats X pname fname (Trim field '' '') 3 4 = ([r, g, b], None)
            \<and> parseColor X pname fname field = Returns (Some (Color4 r g b 1), None))
      \<or> (\<exists>r g b a. parseFloats X pname fname (Trim field '' '') 3 4 = ([r, g, b, a], None)
            \<and> parseColor X pname fname field = Returns (Some (Color4 r g b a), None))"
    by (rule parseColor_numeric)
next
  let ?f = "Trim field '' ''"
  let ?parts = "Split ?f (separator field)"
  assume ne: "?f \<noteq> []" and zero: "ColorUint X ?f = 0"
    and n3: "length ?parts \<noteq> 3" and n4: "length ?parts \<noteq> 4"
  from ne have nb: "\<not> set ?f \<subseteq> {CHR '' ''}"
    by (rule Trim_space_not_blank)
  have "parseFloats X pname fname ?f 3 4 = countThenParse X pname fname ?f ?parts 3 4"
    using nb by (simp add: parseFloats_unfold Trim_idem separator_Trim)
  also have "\<dots> = ([], Some (FieldCountError pname fname))"
    using n3 n4 by (auto simp: countThenParse_def)
  finally show "parseColor X pname fname field = Returns (None, Some (FieldCountError pname fname))"
    using ne zero by (simp add: parseColor_def)
qed

text \<open>
  The theorem at \<^verbatim>\<open>black\<close>, a name packed as zero (one part: the count error), and at
  \<^verbatim>\<open>red\<close> with spaces around it (resolved by name).
\<close>

theorem parseColor_name_needs_nonzero_lookup_witness:
  "Trim ''black'' '' '' \<noteq> [] \<and> ColorUint sampleExternals (Trim ''black'' '' '') = 0
   \<and> parseColor sampleExternals ''win'' ''color'' ''black''
       = Returns (None, Some (FieldCountError ''win'' ''color''))
   \<and> ColorUint sampleExternals (Trim '' red '' '' '') \<noteq> 0
   \<and> parseColor sampleExternals ''win'' ''color'' '' red '' = Returns (Some (Color4 1 0 0 1), None)"
proof -
  have t: "Trim ''black'' '' '' = ''black''" "Trim '' red '' '' '' = ''red''"
    by code_simp+
  have z: "ColorUint sampleExternals ''black'' = 0" "ColorUint sampleExternals ''red'' \<noteq> 0"
    "SetName sampleExternals ''red'' = (1, 0, 0)"
    by (simp_all add: sampleExternals_def sampleColorUint_def sampleSetName_def)
  have p: "Split ''black'' (separator ''black'') = [''black'']"
    by code_simp
  from parseColor_name_needs_nonzero_lookup[of "''black''" sampleExternals "''win''" "''color''"]
    parseColor_name_needs_nonzero_lookup[of "'' red ''" sampleExternals "''win''" "''color''"]
  show ?thesis
    unfolding t p using z by simp
qed

section \<open>Building by name\<close>

text \<open>
  Claim C9. For a name the held mapping does not have, \<open>Build\<close> fails with the
  name-not-found error (the message names the name asked for) and leaves the builder,
  and so the held mapping, as it was.
\<close>

theorem Build_unknown_name:
  "desc b name = None \<Longrightarrow>
   Build X b name = (b, Returns (NilIPanel, Some (NameNotFoundError name)))"
  by (simp add: Build_def NameNotFoundError_def)

text \<open>The theorem at the sample builder, which holds the one name \<^verbatim>\<open>win\<close>.\<close>

theorem Build_unknown_name_witness:
  "desc sampleBuilder ''dialog'' = None
   \<and> Build sampleExternals sampleBuilder ''dialog''
       = (sampleBuilder, Returns (NilIPanel, Some (NameNotFoundError ''dialog'')))"
proof -
  have h: "desc sampleBuilder ''dialog'' = None"
    by (simp add: sampleBuilder_def)
  from h Build_unknown_name[OF h, of sampleExternals] show ?thesis
    by simp
qed

text \<open>
  A description of type \<^verbatim>\<open>Edit\<close> under a held name builds to the nil object and no error:
  \<^verbatim>\<open>buildEdit\<close> is \<^verbatim>\<open>return nil, nil\<close>, and \<open>build\<close> passes both on.
\<close>

lemma Build_Edit:
  "desc b name = Some (Some pd) \<Longrightarrow> Type pd = descTypeEdit \<Longrightarrow>
   Build X b name = (b, Returns (NilIPanel, None))"
  by (simp add: Build_def andThen_def buildEdit_def descTypeEdit_def descTypePanel_def descTypeLabel_def)

text \<open>
  Claim C3 on the code: the document \<^verbatim>\<open>type: Edit\<close> parses to the single unnamed root, and
  building that root returns neither an object nor an error.
\<close>

theorem Build_Edit_returns_nothing:
  "ParseString sampleExternals NewBuilder ''type: Edit''
     = (NewBuilder\<lparr>desc := [[] \<mapsto> Some (descOf ''Edit'' [] [] [])]\<rparr>, None)
   \<and> Build sampleExternals (NewBuilder\<lparr>desc := [[] \<mapsto> Some (descOf ''Edit'' [] [] [])]\<rparr>) []
     = (NewBuilder\<lparr>desc := [[] \<mapsto> Some (descOf ''Edit'' [] [] [])]\<rparr>, Returns (NilIPanel, None))"
proof -
  have p: "ParseString sampleExternals NewBuilder ''type: Edit''
     = (NewBuilder\<lparr>desc := [[] \<mapsto> Some (descOf ''Edit'' [] [] [])]\<rparr>, None)"
    by (simp add: ParseString_def sampleExternals_def sampleUnmarshalNode_def descOf_def)
  have t: "Type (descOf ''Edit'' [] [] []) = descTypeEdit"
    by (simp add: descOf_def descTypeEdit_def)
  have "desc (NewBuilder\<lparr>desc := [[] \<mapsto> Some (descOf ''Edit'' [] [] [])]\<rparr>) [] = Some (Some (descOf ''Edit'' [] [] []))"
    by simp
  from Build_Edit[OF this t] p show ?thesis
    by simp
qed

section \<open>Parsing a document\<close>

text \<open>
  Claim C7. When \<open>ParseString\<close> returns an error, the builder it leaves is the builder
  it was given: the held mapping is assigned only on the two paths that return no error.
\<close>

theorem ParseString_failure_keeps_state:
  "snd (ParseString X b text) \<noteq> None \<Longrightarrow> fst (ParseString X b text) = b"
  by (auto simp: ParseString_def split: sum.splits if_splits)

text \<open>
  The theorem at the two places a parse can fail: the first decode fails, and the first
  decode gives no type and the second fails.
\<close>

theorem ParseString_failure_keeps_state_witness:
  "snd (ParseString sampleExternals sampleBuilder ''text: {type: Label}'') \<noteq> None
   \<and> fst (ParseString sampleExternals sampleBuilder ''text: {type: Label}'') = sampleBuilder
   \<and> snd (ParseString sampleExternals sampleBuilder ''foo: bar'') \<noteq> None
   \<and> fst (ParseString sampleExternals sampleBuilder ''foo: bar'') = sampleBuilder"
proof -
  have h1: "snd (ParseString sampleExternals sampleBuilder ''text: {type: Label}'') \<noteq> None"
    by (simp add: ParseString_def sampleExternals_def sampleUnmarshalNode_def)
  have h2: "snd (ParseString sampleExternals sampleBuilder ''foo: bar'') \<noteq> None"
    by (simp add: ParseString_def sampleExternals_def sampleUnmarshalNode_def
        sampleUnmarshalMap_def descOf_def)
  from h1 h2 ParseString_failure_keeps_state[OF h1] ParseString_failure_keeps_state[OF h2]
  show ?thesis by simp
qed

text \<open>
  Claim C6, as the code has it. The parse fails with the first decode's error as soon as
  the first decode fails, whatever the second decode would give; when the first decode
  gives a type, the held mapping becomes the single unnamed root; when it gives no type,
  the second decode decides: the held mapping becomes the decoded mapping, or the parse
  fails with the second decode's error.
\<close>

theorem ParseString_outcomes:
  "(\<forall>e. UnmarshalNode X text = Inl e \<longrightarrow> ParseString X b text = (b, Some e))
   \<and> (\<forall>pd. UnmarshalNode X text = Inr pd \<longrightarrow> Type pd \<noteq> [] \<longrightarrow>
         ParseString X b text = (b\<lparr>desc := [[] \<mapsto> Some pd]\<rparr>, None))
   \<and> (\<forall>pd pdm. UnmarshalNode X text = Inr pd \<longrightarrow> Type pd = [] \<longrightarrow> UnmarshalMap X text = Inr pdm \<longrightarrow>
         ParseString X b text = (b\<lparr>desc := pdm\<rparr>, None))
   \<and> (\<forall>pd e. UnmarshalNode X text = Inr pd \<longrightarrow> Type pd = [] \<longrightarrow> UnmarshalMap X text = Inl e \<longrightarrow>
         ParseString X b text = (b, Some e))"
  by (simp add: ParseString_def)

text \<open>The theorem on one document for each of its four cases.\<close>

theorem ParseString_outcomes_witness:
  "UnmarshalNode sampleExternals ''win: {type: Label}'' = Inr (descOf [] [] [] [])
   \<and> Type (descOf [] [] [] []) = []
   \<and> UnmarshalMap sampleExternals ''win: {type: Label}'' = Inr [''win'' \<mapsto> Some (descOf ''Label'' [] [] [])]
   \<and> ParseString sampleExternals NewBuilder ''win: {type: Label}''
       = (NewBuilder\<lparr>desc := [''win'' \<mapsto> Some (descOf ''Label'' [] [] [])]\<rparr>, None)
   \<and> UnmarshalNode sampleExternals ''type: Label'' = Inr (descOf ''Label'' [] [] [])
   \<and> ParseString sampleExternals NewBuilder ''type: Label''
       = (NewBuilder\<lparr>desc := [[] \<mapsto> Some (descOf ''Label'' [] [] [])]\<rparr>, None)
   \<and> ParseString sampleExternals NewBuilder ''foo: bar''
       = (NewBuilder, Some ''yaml: unmarshal errors: line 1: cannot unmarshal !!str into gui.panelDesc'')
   \<and> ParseString sampleExternals NewBuilder ''text: {type: Label}''
       = (NewBuilder, Some ''yaml: unmarshal errors: line 1: cannot unmarshal !!map into string'')"
proof -
  have n: "UnmarshalNode sampleExternals ''win: {type: Label}'' = Inr (descOf [] [] [] [])"
    "UnmarshalNode sampleExternals ''foo: bar'' = Inr (descOf [] [] [] [])"
    "UnmarshalNode sampleExternals ''type: Label'' = Inr (descOf ''Label'' [] [] [])"
    "UnmarshalNode sampleExternals ''text: {type: Label}''
       = Inl ''yaml: unmarshal errors: line 1: cannot unmarshal !!map into string''"
    by (simp_all add: sampleExternals_def sampleUnmarshalNode_def)
  have m: "UnmarshalMap sampleExternals ''win: {type: Label}'' = Inr [''win'' \<mapsto> Some (descOf ''Label'' [] [] [])]"
    "UnmarshalMap sampleExternals ''foo: bar''
       = Inl ''yaml: unmarshal errors: line 1: cannot unmarshal !!str into gui.panelDesc''"
    by (simp_all add: sampleExternals_def sampleUnmarshalMap_def)
  have t: "Type (descOf [] [] [] []) = []" "Type (descOf ''Label'' [] [] []) \<noteq> []"
    by (simp_all add: descOf_def)
  from ParseString_outcomes[of sampleExternals "''win: {type: Label}''" NewBuilder]
    ParseString_outcomes[of sampleExternals "''type: Label''" NewBuilder]
    ParseString_outcomes[of sampleExternals "''foo: bar''" NewBuilder]
    ParseString_outcomes[of sampleExternals "''text: {type: Label}''" NewBuilder]
  show ?thesis
    using n m t by simp
qed

text \<open>
  Claim C6 as the specification words it fails on the document \<^verbatim>\<open>text: {type: Label}\<close>: it
  does not decode as a single description, it does decode as a mapping of names to
  descriptions, and the parse fails all the same.
\<close>

theorem ParseString_first_attempt_counterexample:
  "isl (UnmarshalNode sampleExternals ''text: {type: Label}'')
   \<and> UnmarshalMap sampleExternals ''text: {type: Label}'' = Inr [''text'' \<mapsto> Some (descOf ''Label'' [] [] [])]
   \<and> ParseString sampleExternals NewBuilder ''text: {type: Label}''
       = (NewBuilder, Some ''yaml: unmarshal errors: line 1: cannot unmarshal !!map into string'')"
  by (simp add: ParseString_def sampleExternals_def sampleUnmarshalNode_def sampleUnmarshalMap_def)

section \<open>Size sets and field errors on concrete fields\<close>

text \<open>
  Claim C2 on the code: one number is broadcast to the four sides and four numbers are
  taken in order, but two or three numbers pass the bounds 1 and 4 of \<open>parseFloats\<close>,
  and the literal of line 293 then indexes past the end of the slice.
\<close>

theorem parseBorderSizes_two_or_three_panics:
  "parseBorderSizes sampleExternals ''win'' ''margins'' ''2'' = Returns (Some (BorderSizes 2 2 2 2), None)
   \<and> parseBorderSizes sampleExternals ''win'' ''margins'' ''1,2,3,4'' = Returns (Some (BorderSizes 1 2 3 4), None)
   \<and> parseBorderSizes sampleExternals ''win'' ''margins'' ''1,2'' = Panics (IndexOutOfRange 2 2)
   \<and> parseBorderSizes sampleExternals ''win'' ''margins'' ''1,2,3'' = Panics (IndexOutOfRange 3 3)"
  by code_simp

text \<open>
  Claim C8 on the code: the count error is made by \<open>err\<close> and carries the name of the
  object and of the field; the format error of line 356 is made of the field's text and
  the number parser's message, and carries neither.
\<close>

theorem format_error_carries_no_names:
  "parseBorderSizes sampleExternals ''win'' ''margins'' ''x''
     = Returns (None, Some (FieldFormatError ''x'' (sampleSyntaxError ''x'')))
   \<and> parseColor sampleExternals ''win'' ''bordercolor'' ''1,x,0''
     = Returns (None, Some (FieldFormatError ''1,x,0'' (sampleSyntaxError ''x'')))
   \<and> \<not> carries (FieldFormatError ''x'' (sampleSyntaxError ''x'')) ''win''
   \<and> \<not> carries (FieldFormatError ''x'' (sampleSyntaxError ''x'')) ''margins''
   \<and> \<not> carries (FieldFormatError ''1,x,0'' (sampleSyntaxError ''x'')) ''win''
   \<and> \<not> carries (FieldFormatError ''1,x,0'' (sampleSyntaxError ''x'')) ''bordercolor''
   \<and> parseBorderSizes sampleExternals ''win'' ''margins'' ''1,2,3,4,5''
     = Returns (None, Some (FieldCountError ''win'' ''margins''))
   \<and> carries (FieldCountError ''win'' ''margins'') ''win''
   \<and> carries (FieldCountError ''win'' ''margins'') ''margins''"
  by code_simp

section \<open>The errors of a build\<close>













section \<open>Dispatch on the type\<close>






section \<open>The children of a panel\<close>



















end
